theory Spec2Isabelle
  imports Main "HOL-Library.Word"
begin

section \<open>Data model\<close>

text \<open>
  A C pointer to a heap block is \<open>None\<close> (the NULL pointer) or \<open>Some a\<close> for the
  address \<open>a\<close>. The \<open>int\<close> values of the source (\<open>rv\<close>, \<open>fd\<close>, \<open>status\<close>) are only
  compared with zero and copied, never computed with, so they are HOL integers.
  \<open>size_t\<close> is taken as a 64-bit word.
\<close>

type_synonym ptr = "nat option"

abbreviation NULL :: ptr where
  "NULL \<equiv> None"

type_synonym size_t = "64 word"

text \<open>The open flags and permission bits the source combines with \<open>|\<close>, kept symbolic.\<close>

datatype oflag = O_WRONLY | O_CREAT | O_EXCL | UV_FS_O_RDONLY | UV_FS_O_DIRECTORY | UV_FS_O_RDWR

datatype perm = S_IRUSR | S_IWUSR

text \<open>
  The calls that leave this module for the operating system or for libuv. Each takes
  the arguments the source passes.
\<close>

datatype call =
    Open string "oflag list" "perm list"
  | Close int
  | Fsync int
  | Fallocate int size_t size_t
  | Truncate int size_t
  | Unlink string
  | Rename string string
  | QueueWork nat

text \<open>The text of an error message: what the two formatting helpers were given.\<close>

datatype errtext = SysErr string int | Printf string

text \<open>
  What \<open>uv_error.h\<close> and \<open>uv_os.h\<close> declare and \<open>src/\<close> does not hold is a parameter of
  the model: the two status constants, the path join, and the outcome of every call,
  which may depend on all the calls made before it (with their results).
\<close>

record env =
  UV__ERROR :: int
  UV__CANCELED :: int
  UvOsJoin :: "string \<Rightarrow> string \<Rightarrow> string"
  sys :: "(call \<times> int) list \<Rightarrow> call \<Rightarrow> int"

text \<open>
  The state outside the structs: the calls made so far with their results, the live
  heap blocks holding error messages, the next fresh address, the arguments the
  current allocator's \<open>free\<close> has received, and the completion callbacks invoked
  (callback and status).
\<close>

record world =
  trace :: "(call \<times> int) list"
  heap :: "nat \<rightharpoonup> errtext"
  brk :: nat
  free_calls :: "ptr list"
  cb_calls :: "(nat \<times> int) list"

record UvFs =
  loop :: nat
  errmsg :: ptr

record UvFsCreateFile_req =
  req_dir :: string
  req_filename :: string
  req_size :: size_t
  req_cb :: "nat option"
  req_canceled :: bool
  req_errmsg :: ptr
  req_status :: int
  req_fd :: int

text \<open>A failed \<open>assert\<close> aborts the process: the operation has no result.\<close>

datatype abort = AssertionFailed

section \<open>The collaborators\<close>

text \<open>
  Modelled from the spec: the syscall layer (\<open>UvOsOpen\<close>, \<open>UvOsClose\<close>, \<open>UvOsFsync\<close>,
  \<open>UvOsFallocate\<close>, \<open>UvOsTruncate\<close>, \<open>UvOsUnlink\<close>, \<open>UvOsRename\<close>) and the background
  queue (\<open>uv_queue_work\<close>) are not in \<open>src/\<close>. Each performs one call, "returning a
  status distinguishing success from a specific OS error code": the environment
  decides the status and the call is recorded with it.
\<close>

definition syscall :: "env \<Rightarrow> call \<Rightarrow> world \<Rightarrow> int \<times> world" where
  "syscall E c w = (let r = sys E (trace w) c in (r, w\<lparr>trace := trace w @ [(c, r)]\<rparr>))"

definition UvOsOpen :: "env \<Rightarrow> string \<Rightarrow> oflag list \<Rightarrow> perm list \<Rightarrow> world \<Rightarrow> int \<times> world" where
  "UvOsOpen E path flags mode = syscall E (Open path flags mode)"

definition UvOsClose :: "env \<Rightarrow> int \<Rightarrow> world \<Rightarrow> int \<times> world" where
  "UvOsClose E fd = syscall E (Close fd)"

definition UvOsFsync :: "env \<Rightarrow> int \<Rightarrow> world \<Rightarrow> int \<times> world" where
  "UvOsFsync E fd = syscall E (Fsync fd)"

definition UvOsFallocate :: "env \<Rightarrow> int \<Rightarrow> size_t \<Rightarrow> size_t \<Rightarrow> world \<Rightarrow> int \<times> world" where
  "UvOsFallocate E fd off len = syscall E (Fallocate fd off len)"

definition UvOsTruncate :: "env \<Rightarrow> int \<Rightarrow> size_t \<Rightarrow> world \<Rightarrow> int \<times> world" where
  "UvOsTruncate E fd len = syscall E (Truncate fd len)"

definition UvOsUnlink :: "env \<Rightarrow> string \<Rightarrow> world \<Rightarrow> int \<times> world" where
  "UvOsUnlink E path = syscall E (Unlink path)"

definition UvOsRename :: "env \<Rightarrow> string \<Rightarrow> string \<Rightarrow> world \<Rightarrow> int \<times> world" where
  "UvOsRename E path1 path2 = syscall E (Rename path1 path2)"

definition uv_queue_work :: "env \<Rightarrow> nat \<Rightarrow> world \<Rightarrow> int \<times> world" where
  "uv_queue_work E lp = syscall E (QueueWork lp)"

text \<open>
  Modelled from the spec: the error-formatting helpers \<open>errMsgPrintf\<close> and
  \<open>uvSysErrMsg\<close> (\<open>err.h\<close>, \<open>uv_error.h\<close>) are not in \<open>src/\<close>. "Given an operation
  label and an OS error code (or a literal reason such as "canceled"), produces the
  owned error string": a fresh heap block holding the text.
\<close>

definition new_msg :: "errtext \<Rightarrow> world \<Rightarrow> ptr \<times> world" where
  "new_msg t w = (Some (brk w), w\<lparr>heap := (heap w)(brk w \<mapsto> t), brk := Suc (brk w)\<rparr>)"

definition errMsgPrintf :: "string \<Rightarrow> world \<Rightarrow> ptr \<times> world" where
  "errMsgPrintf reason = new_msg (Printf reason)"

definition uvSysErrMsg :: "string \<Rightarrow> int \<Rightarrow> world \<Rightarrow> ptr \<times> world" where
  "uvSysErrMsg label code = new_msg (SysErr label code)"

section \<open>heap.c\<close>

text \<open>
  \<open>currentHeap->free(currentHeap->data, ptr)\<close>: the allocator in use receives the
  pointer, whatever it is, and the block it names is no longer live.
\<close>

definition currentHeap_free :: "ptr \<Rightarrow> world \<Rightarrow> world" where
  "currentHeap_free p w =
     w\<lparr>heap := (case p of None \<Rightarrow> heap w | Some a \<Rightarrow> (heap w)(a := None)),
       free_calls := free_calls w @ [p]\<rparr>"

definition HeapFree :: "ptr \<Rightarrow> world \<Rightarrow> world" where
  "HeapFree p w = (if p = NULL then w else currentHeap_free p w)"

section \<open>uv\_fs.c\<close>

definition UvFsInit :: "UvFs \<Rightarrow> nat \<Rightarrow> UvFs" where
  "UvFsInit fs lp = fs\<lparr>loop := lp, errmsg := NULL\<rparr>"

definition UvFsClose :: "UvFs \<Rightarrow> world \<Rightarrow> world" where
  "UvFsClose fs w = HeapFree (errmsg fs) w"

definition UvFsErrMsg :: "UvFs \<Rightarrow> ptr" where
  "UvFsErrMsg fs = errmsg fs"

definition UvFsSetErrMsg :: "UvFs \<Rightarrow> ptr \<Rightarrow> world \<Rightarrow> UvFs \<times> world" where
  "UvFsSetErrMsg fs m w = (fs\<lparr>errmsg := m\<rparr>, HeapFree (errmsg fs) w)"

text \<open>
  \<open>uvFsSyncDirThreadSafe\<close> writes its message through \<open>char **errmsg\<close>: the model
  takes the value the pointed-to variable holds and returns the value it holds after.
\<close>

definition uvFsSyncDirThreadSafe :: "env \<Rightarrow> string \<Rightarrow> ptr \<Rightarrow> world \<Rightarrow> int \<times> ptr \<times> world" where
  "uvFsSyncDirThreadSafe E dir errmsg0 w =
     (case UvOsOpen E dir [UV_FS_O_RDONLY, UV_FS_O_DIRECTORY] [] w of (fd, w1) \<Rightarrow>
        if fd < 0 then
          (case uvSysErrMsg ''open directory'' fd w1 of (m, w2) \<Rightarrow> (UV__ERROR E, m, w2))
        else
          (case UvOsFsync E fd w1 of (rv, w2) \<Rightarrow>
           case UvOsClose E fd w2 of (_, w3) \<Rightarrow>
             if rv \<noteq> 0 then
               (case uvSysErrMsg ''fsync directory'' rv w3 of (m, w4) \<Rightarrow> (UV__ERROR E, m, w4))
             else (0, errmsg0, w3)))"

text \<open>\<open>uvFsSyncDir\<close> hands \<open>&fs->errmsg\<close> to the helper: the field itself is the variable written.\<close>

definition uvFsSyncDir :: "env \<Rightarrow> UvFs \<Rightarrow> string \<Rightarrow> world \<Rightarrow> int \<times> UvFs \<times> world" where
  "uvFsSyncDir E fs dir w =
     (case uvFsSyncDirThreadSafe E dir (errmsg fs) w of (rv, m, w1) \<Rightarrow>
        (if rv \<noteq> 0 then rv else 0, fs\<lparr>errmsg := m\<rparr>, w1))"

text \<open>
  \<open>UvFsCreateFile2\<close>. The labels \<open>err\<close> and \<open>err_after_open\<close> are functions of what is
  live when they are reached; \<open>*fd\<close> is passed in and returned. The result is the return
  value, \<open>*fd\<close>, the context and the world.
\<close>

definition CreateFile2_err ::
  "UvFs \<Rightarrow> int \<Rightarrow> ptr \<Rightarrow> int \<Rightarrow> world \<Rightarrow> abort + (int \<times> int \<times> UvFs \<times> world)" where
  "CreateFile2_err fs rv m fd w =
     (if rv = 0 then Inl AssertionFailed
      else case UvFsSetErrMsg fs m w of (fs', w') \<Rightarrow> Inr (rv, fd, fs', w'))"

definition CreateFile2_err_after_open ::
  "env \<Rightarrow> UvFs \<Rightarrow> string \<Rightarrow> int \<Rightarrow> ptr \<Rightarrow> int \<Rightarrow> world \<Rightarrow> abort + (int \<times> int \<times> UvFs \<times> world)" where
  "CreateFile2_err_after_open E fs path rv m fd w =
     (case UvOsClose E fd w of (_, w1) \<Rightarrow>
      case UvOsUnlink E path w1 of (_, w2) \<Rightarrow>
        CreateFile2_err fs rv m fd w2)"

definition UvFsCreateFile2 ::
  "env \<Rightarrow> UvFs \<Rightarrow> string \<Rightarrow> string \<Rightarrow> size_t \<Rightarrow> int \<Rightarrow> world \<Rightarrow> abort + (int \<times> int \<times> UvFs \<times> world)" where
  "UvFsCreateFile2 E fs dir filename sz fd0 w =
     (let path = UvOsJoin E dir filename;
          flags = [O_WRONLY, O_CREAT, O_EXCL]
      in case UvOsOpen E path flags [S_IRUSR, S_IWUSR] w of (rv1, w1) \<Rightarrow>
         if rv1 < 0 then
           (case uvSysErrMsg ''open'' rv1 w1 of (m, w2) \<Rightarrow>
              CreateFile2_err fs (UV__ERROR E) m fd0 w2)
         else
           (case UvOsFallocate E rv1 0 sz w1 of (rv2, w2) \<Rightarrow>
              if rv2 \<noteq> 0 then
                (case uvSysErrMsg ''posix_fallocate'' rv2 w2 of (m, w3) \<Rightarrow>
                   CreateFile2_err_after_open E fs path (UV__ERROR E) m rv1 w3)
              else
                (case uvFsSyncDirThreadSafe E dir NULL w2 of (rv3, m, w3) \<Rightarrow>
                   if rv3 \<noteq> 0 then CreateFile2_err_after_open E fs path rv3 m rv1 w3
                   else Inr (0, rv1, fs, w3))))"

text \<open>\<open>uvFsCreateFileWorkCb\<close>: the same labels, writing into the request.\<close>

definition WorkCb_err ::
  "UvFsCreateFile_req \<Rightarrow> int \<Rightarrow> ptr \<Rightarrow> world \<Rightarrow> abort + (UvFsCreateFile_req \<times> world)" where
  "WorkCb_err req rv m w =
     (if rv = 0 then Inl AssertionFailed
      else Inr (req\<lparr>req_errmsg := m, req_status := rv\<rparr>, w))"

definition WorkCb_err_after_open ::
  "env \<Rightarrow> UvFsCreateFile_req \<Rightarrow> string \<Rightarrow> int \<Rightarrow> ptr \<Rightarrow> int \<Rightarrow> world \<Rightarrow> abort + (UvFsCreateFile_req \<times> world)" where
  "WorkCb_err_after_open E req path rv m fd w =
     (case UvOsClose E fd w of (_, w1) \<Rightarrow>
      case UvOsUnlink E path w1 of (_, w2) \<Rightarrow>
        WorkCb_err req rv m w2)"

definition uvFsCreateFileWorkCb ::
  "env \<Rightarrow> UvFsCreateFile_req \<Rightarrow> world \<Rightarrow> abort + (UvFsCreateFile_req \<times> world)" where
  "uvFsCreateFileWorkCb E req w =
     (let path = UvOsJoin E (req_dir req) (req_filename req);
          flags = [O_WRONLY, O_CREAT, O_EXCL]
      in case UvOsOpen E path flags [S_IRUSR, S_IWUSR] w of (rv1, w1) \<Rightarrow>
         if rv1 < 0 then
           (case uvSysErrMsg ''open'' rv1 w1 of (m, w2) \<Rightarrow>
              WorkCb_err req (UV__ERROR E) m w2)
         else
           (case UvOsFallocate E rv1 0 (req_size req) w1 of (rv2, w2) \<Rightarrow>
              if rv2 \<noteq> 0 then
                (case uvSysErrMsg ''posix_fallocate'' rv2 w2 of (m, w3) \<Rightarrow>
                   WorkCb_err_after_open E req path (UV__ERROR E) m rv1 w3)
              else
                (case uvFsSyncDirThreadSafe E (req_dir req) NULL w2 of (rv3, m, w3) \<Rightarrow>
                   if rv3 \<noteq> 0 then WorkCb_err_after_open E req path rv3 m rv1 w3
                   else Inr (req\<lparr>req_errmsg := NULL, req_status := 0, req_fd := rv1\<rparr>, w3))))"

text \<open>
  \<open>uvFsCreateFileAfterWorkCb\<close>. \<open>req->fs\<close> points to the context, which is passed and
  returned beside the request. \<open>req->cb(req, req->status)\<close> is caller code: the call is
  recorded with the status it is given.
\<close>

definition invoke_cb :: "nat option \<Rightarrow> int \<Rightarrow> world \<Rightarrow> world" where
  "invoke_cb cb status w =
     (case cb of None \<Rightarrow> w | Some c \<Rightarrow> w\<lparr>cb_calls := cb_calls w @ [(c, status)]\<rparr>)"

definition AfterWorkCb_canceled ::
  "env \<Rightarrow> UvFsCreateFile_req \<Rightarrow> world \<Rightarrow> UvFsCreateFile_req \<times> world" where
  "AfterWorkCb_canceled E req w =
     (let w2 =
        (if req_status req = 0 then
           (let path = UvOsJoin E (req_dir req) (req_filename req)
            in case UvOsClose E (req_fd req) w of (_, w1) \<Rightarrow>
               snd (UvOsUnlink E path w1))
         else HeapFree (req_errmsg req) w)
      in case errMsgPrintf ''canceled'' w2 of (m, w3) \<Rightarrow>
           (req\<lparr>req_errmsg := m, req_status := UV__CANCELED E\<rparr>, w3))"

definition uvFsCreateFileAfterWorkCb ::
  "env \<Rightarrow> UvFs \<Rightarrow> UvFsCreateFile_req \<Rightarrow> int \<Rightarrow> world \<Rightarrow> abort + (UvFs \<times> UvFsCreateFile_req \<times> world)" where
  "uvFsCreateFileAfterWorkCb E fs req status w =
     (if status \<noteq> 0 then Inl AssertionFailed
      else
        case (if req_canceled req then AfterWorkCb_canceled E req w else (req, w)) of
          (req1, w1) \<Rightarrow>
        case UvFsSetErrMsg fs (req_errmsg req1) w1 of (fs', w2) \<Rightarrow>
          Inr (fs', req1, invoke_cb (req_cb req1) (req_status req1) w2))"

definition UvFsCreateFile ::
  "env \<Rightarrow> UvFs \<Rightarrow> UvFsCreateFile_req \<Rightarrow> string \<Rightarrow> string \<Rightarrow> size_t \<Rightarrow> nat option \<Rightarrow> world
     \<Rightarrow> int \<times> UvFs \<times> UvFsCreateFile_req \<times> world" where
  "UvFsCreateFile E fs req dir filename sz cb w =
     (let req1 = req\<lparr>req_dir := dir, req_filename := filename, req_size := sz, req_cb := cb,
                     req_canceled := False, req_errmsg := NULL\<rparr>
      in case uv_queue_work E (loop fs) w of (rv, w1) \<Rightarrow>
         if rv \<noteq> 0 then
           (case uvSysErrMsg ''uv_queue_work'' rv w1 of (m, w2) \<Rightarrow>
            case UvFsSetErrMsg fs m w2 of (fs', w3) \<Rightarrow>
              (UV__ERROR E, fs', req1, w3))
         else (0, fs, req1, w1))"

definition UvFsCreateFileCancel :: "UvFsCreateFile_req \<Rightarrow> UvFsCreateFile_req" where
  "UvFsCreateFileCancel req = req\<lparr>req_canceled := True\<rparr>"

definition UvFsRemoveFile :: "env \<Rightarrow> UvFs \<Rightarrow> string \<Rightarrow> string \<Rightarrow> world \<Rightarrow> int \<times> UvFs \<times> world" where
  "UvFsRemoveFile E fs dir filename w =
     (let path = UvOsJoin E dir filename
      in case UvOsUnlink E path w of (rv1, w1) \<Rightarrow>
         if rv1 \<noteq> 0 then
           (case uvSysErrMsg ''unlink'' rv1 w1 of (m, w2) \<Rightarrow>
            case UvFsSetErrMsg fs m w2 of (fs', w3) \<Rightarrow>
              (UV__ERROR E, fs', w3))
         else
           (case uvFsSyncDir E fs dir w1 of (rv2, fs', w2) \<Rightarrow>
              if rv2 \<noteq> 0 then (0, fs', w2) else (0, fs', w2)))"

text \<open>\<open>UvFsTruncateAndRenameFile\<close>, with its labels \<open>sync\<close>, \<open>err_after_open\<close> and \<open>err\<close>.\<close>

definition TruncateAndRename_err :: "env \<Rightarrow> UvFs \<Rightarrow> ptr \<Rightarrow> world \<Rightarrow> int \<times> UvFs \<times> world" where
  "TruncateAndRename_err E fs m w =
     (case UvFsSetErrMsg fs m w of (fs', w') \<Rightarrow> (UV__ERROR E, fs', w'))"

definition TruncateAndRename_err_after_open ::
  "env \<Rightarrow> UvFs \<Rightarrow> int \<Rightarrow> ptr \<Rightarrow> world \<Rightarrow> int \<times> UvFs \<times> world" where
  "TruncateAndRename_err_after_open E fs fd m w =
     (case UvOsClose E fd w of (_, w1) \<Rightarrow> TruncateAndRename_err E fs m w1)"

definition TruncateAndRename_sync :: "env \<Rightarrow> UvFs \<Rightarrow> string \<Rightarrow> world \<Rightarrow> int \<times> UvFs \<times> world" where
  "TruncateAndRename_sync E fs dir w =
     (case uvFsSyncDir E fs dir w of (rv, fs', w') \<Rightarrow> (if rv \<noteq> 0 then rv else 0, fs', w'))"

definition UvFsTruncateAndRenameFile ::
  "env \<Rightarrow> UvFs \<Rightarrow> string \<Rightarrow> size_t \<Rightarrow> string \<Rightarrow> string \<Rightarrow> world \<Rightarrow> int \<times> UvFs \<times> world" where
  "UvFsTruncateAndRenameFile E fs dir sz filename1 filename2 w =
     (let path1 = UvOsJoin E dir filename1;
          path2 = UvOsJoin E dir filename2
      in if sz = 0 then
           (case UvOsUnlink E path1 w of (rv, w1) \<Rightarrow>
              if rv \<noteq> 0 then
                (case uvSysErrMsg ''unlink'' rv w1 of (m, w2) \<Rightarrow> TruncateAndRename_err E fs m w2)
              else TruncateAndRename_sync E fs dir w1)
         else
           (case UvOsOpen E path1 [UV_FS_O_RDWR] [] w of (fd, w1) \<Rightarrow>
              if fd < 0 then
                (case uvSysErrMsg ''open'' fd w1 of (m, w2) \<Rightarrow> TruncateAndRename_err E fs m w2)
              else
                (case UvOsTruncate E fd sz w1 of (rv2, w2) \<Rightarrow>
                   if rv2 \<noteq> 0 then
                     (case uvSysErrMsg ''truncate'' rv2 w2 of (m, w3) \<Rightarrow>
                        TruncateAndRename_err_after_open E fs fd m w3)
                   else
                     (case UvOsFsync E fd w2 of (rv3, w3) \<Rightarrow>
                        if rv3 \<noteq> 0 then
                          (case uvSysErrMsg ''fsync'' rv3 w3 of (m, w4) \<Rightarrow>
                             TruncateAndRename_err_after_open E fs fd m w4)
                        else
                          (case UvOsClose E fd w3 of (_, w4) \<Rightarrow>
                           case UvOsRename E path1 path2 w4 of (rv5, w5) \<Rightarrow>
                             if rv5 \<noteq> 0 then
                               (case uvSysErrMsg ''rename'' rv5 w5 of (m, w6) \<Rightarrow>
                                  TruncateAndRename_err E fs m w6)
                             else TruncateAndRename_sync E fs dir w5)))))"

section \<open>Observations\<close>

text \<open>The calls an operation added to the trace, and the text a message pointer names.\<close>

definition new_calls :: "world \<Rightarrow> world \<Rightarrow> (call \<times> int) list" where
  "new_calls w w' = drop (length (trace w)) (trace w')"

definition msg_text :: "world \<Rightarrow> ptr \<Rightarrow> errtext option" where
  "msg_text w p = (case p of None \<Rightarrow> None | Some a \<Rightarrow> heap w a)"

text \<open>
  The result the environment gives a call made in world \<open>w\<close>, and the world after it.
\<close>

definition result_of :: "env \<Rightarrow> world \<Rightarrow> call \<Rightarrow> int" where
  "result_of E w c = sys E (trace w) c"

definition after :: "env \<Rightarrow> world \<Rightarrow> call \<Rightarrow> world" where
  "after E w c = snd (syscall E c w)"

fun afters :: "env \<Rightarrow> world \<Rightarrow> call list \<Rightarrow> world" where
  "afters E w [] = w"
| "afters E w (c # cs) = afters E (after E w c) cs"

text \<open>
  A pointer is allocated in \<open>w\<close> when it is NULL or an address handed out before: the
  next fresh block cannot be at it.
\<close>

definition allocated :: "world \<Rightarrow> ptr \<Rightarrow> bool" where
  "allocated w p = (case p of None \<Rightarrow> True | Some a \<Rightarrow> a < brk w)"

text \<open>The paths a call names.\<close>

fun paths_of :: "call \<Rightarrow> string list" where
  "paths_of (Open p fl m) = [p]"
| "paths_of (Unlink p) = [p]"
| "paths_of (Rename p q) = [p, q]"
| "paths_of _ = []"

abbreviation OpenDir :: "string \<Rightarrow> call" where
  "OpenDir dir \<equiv> Open dir [UV_FS_O_RDONLY, UV_FS_O_DIRECTORY] []"

abbreviation OpenCreate :: "string \<Rightarrow> call" where
  "OpenCreate path \<equiv> Open path [O_WRONLY, O_CREAT, O_EXCL] [S_IRUSR, S_IWUSR]"

text \<open>
  What \<open>HeapFree\<close> passes on to the allocator when called on each of the pointers in
  turn, and the callback invocation a request with callback \<open>cb\<close> gives rise to.
\<close>

definition frees_of :: "ptr list \<Rightarrow> ptr list" where
  "frees_of ps = filter (\<lambda>p. p \<noteq> NULL) ps"

definition delivered :: "nat option \<Rightarrow> int \<Rightarrow> (nat \<times> int) list" where
  "delivered cb status = (case cb of None \<Rightarrow> [] | Some c \<Rightarrow> [(c, status)])"

text \<open>
  What a caller sees of the three creation entry points: the status, the descriptor,
  the message pointer and the calls made so far; for the finalizer the context's
  message, the status, the callbacks invoked and the pointers freed.
\<close>

definition observe_create ::
  "abort + (int \<times> int \<times> UvFs \<times> world) \<Rightarrow> abort + (int \<times> int \<times> ptr \<times> call list)" where
  "observe_create x =
     (case x of Inl a \<Rightarrow> Inl a
      | Inr (rv, fd, fs, w) \<Rightarrow> Inr (rv, fd, UvFsErrMsg fs, map fst (trace w)))"

definition observe_work ::
  "abort + (UvFsCreateFile_req \<times> world) \<Rightarrow> abort + (int \<times> ptr \<times> call list)" where
  "observe_work x =
     (case x of Inl a \<Rightarrow> Inl a
      | Inr (req, w) \<Rightarrow> Inr (req_status req, req_errmsg req, map fst (trace w)))"

definition observe_after ::
  "abort + (UvFs \<times> UvFsCreateFile_req \<times> world)
     \<Rightarrow> abort + (ptr \<times> int \<times> (nat \<times> int) list \<times> ptr list \<times> call list)" where
  "observe_after x =
     (case x of Inl a \<Rightarrow> Inl a
      | Inr (fs, req, w) \<Rightarrow>
          Inr (UvFsErrMsg fs, req_status req, cb_calls w, free_calls w, map fst (trace w)))"

section \<open>Example environments\<close>

text \<open>
  An operating system where every call succeeds and every open returns descriptor 3,
  and one where a chosen call fails with a chosen code; an empty world, and a world
  whose context already holds a message at address 0.
\<close>

definition sys_ok :: "(call \<times> int) list \<Rightarrow> call \<Rightarrow> int" where
  "sys_ok h c = (case c of Open p fl m \<Rightarrow> 3 | _ \<Rightarrow> 0)"

definition sys_fail :: "call \<Rightarrow> int \<Rightarrow> (call \<times> int) list \<Rightarrow> call \<Rightarrow> int" where
  "sys_fail c0 r h c = (if c = c0 then r else sys_ok h c)"

definition env_of :: "((call \<times> int) list \<Rightarrow> call \<Rightarrow> int) \<Rightarrow> env" where
  "env_of f = \<lparr>UV__ERROR = 1, UV__CANCELED = 2, UvOsJoin = (\<lambda>d n. d @ ''/'' @ n), sys = f\<rparr>"

definition w0 :: world where
  "w0 = \<lparr>trace = [], heap = Map.empty, brk = 0, free_calls = [], cb_calls = []\<rparr>"

definition w_old :: world where
  "w_old = \<lparr>trace = [], heap = [0 \<mapsto> SysErr ''open'' (- 17)], brk = 1, free_calls = [],
            cb_calls = []\<rparr>"

definition fs0 :: UvFs where
  "fs0 = \<lparr>loop = 7, errmsg = NULL\<rparr>"

definition fs_old :: UvFs where
  "fs_old = \<lparr>loop = 7, errmsg = Some 0\<rparr>"

text \<open>A request whose worker has succeeded with descriptor 3, with callback 1.\<close>

definition req_done :: UvFsCreateFile_req where
  "req_done = \<lparr>req_dir = ''d'', req_filename = ''f'', req_size = 4096, req_cb = Some 1,
                req_canceled = False, req_errmsg = NULL, req_status = 0, req_fd = 3\<rparr>"

section \<open>Properties\<close>

lemmas os_defs = syscall_def UvOsOpen_def UvOsClose_def UvOsFsync_def UvOsFallocate_def
  UvOsTruncate_def UvOsUnlink_def UvOsRename_def uv_queue_work_def
  new_msg_def errMsgPrintf_def uvSysErrMsg_def

lemmas obs_defs = new_calls_def msg_text_def result_of_def after_def

lemmas ex_defs = env_of_def sys_fail_def sys_ok_def w0_def w_old_def fs0_def fs_old_def

lemmas fs_defs = UvFsSetErrMsg_def HeapFree_def currentHeap_free_def uvFsSyncDir_def
  uvFsSyncDirThreadSafe_def allocated_def

lemmas create_defs = UvFsCreateFile2_def CreateFile2_err_def CreateFile2_err_after_open_def
  uvFsCreateFileWorkCb_def WorkCb_err_def WorkCb_err_after_open_def

lemmas after_defs = uvFsCreateFileAfterWorkCb_def AfterWorkCb_canceled_def invoke_cb_def

lemmas trunc_defs = UvFsTruncateAndRenameFile_def TruncateAndRename_err_def
  TruncateAndRename_sync_def TruncateAndRename_err_after_open_def

lemmas observe_defs = observe_create_def observe_work_def observe_after_def UvFsErrMsg_def
  frees_of_def delivered_def

lemma HeapFree_frame:
  "trace (HeapFree p w) = trace w" "cb_calls (HeapFree p w) = cb_calls w"
  "brk (HeapFree p w) = brk w"
  by (simp_all add: HeapFree_def currentHeap_free_def)

subsection \<open>Directory durability\<close>

text \<open>
  C9. \<open>uvFsSyncDirThreadSafe\<close> opens the directory read-only. When the open fails (a
  negative result \<open>fd\<close>) it makes no other call and returns \<open>UV__ERROR\<close> with the
  message "open directory" and the code \<open>fd\<close>. Otherwise it calls fsync and then close
  on the descriptor, whatever fsync returned; when fsync returned \<open>r \<noteq> 0\<close> it returns
  \<open>UV__ERROR\<close> with the message "fsync directory" and the code \<open>r\<close>, and when fsync
  returned 0 it returns 0 and leaves the caller's message variable and the heap as
  they were. With \<open>UV__ERROR \<noteq> 0\<close> the three outcomes exclude each other, so each
  error is returned exactly in its case.
\<close>

theorem uvFsSyncDirThreadSafe_outcomes:
  assumes "uvFsSyncDirThreadSafe E dir m0 w = (rv, m, w')"
    and "fd = result_of E w (Open dir [UV_FS_O_RDONLY, UV_FS_O_DIRECTORY] [])"
    and "r = result_of E (after E w (Open dir [UV_FS_O_RDONLY, UV_FS_O_DIRECTORY] [])) (Fsync fd)"
  shows "(fd < 0 \<longrightarrow> rv = UV__ERROR E \<and> msg_text w' m = Some (SysErr ''open directory'' fd)
            \<and> map fst (new_calls w w') = [Open dir [UV_FS_O_RDONLY, UV_FS_O_DIRECTORY] []])
       \<and> (0 \<le> fd \<longrightarrow> map fst (new_calls w w')
              = [Open dir [UV_FS_O_RDONLY, UV_FS_O_DIRECTORY] [], Fsync fd, Close fd])
       \<and> (0 \<le> fd \<and> r \<noteq> 0 \<longrightarrow>
              rv = UV__ERROR E \<and> msg_text w' m = Some (SysErr ''fsync directory'' r))
       \<and> (0 \<le> fd \<and> r = 0 \<longrightarrow> rv = 0 \<and> m = m0 \<and> heap w' = heap w)
       \<and> (UV__ERROR E \<noteq> 0 \<longrightarrow>
              (rv \<noteq> 0 \<and> msg_text w' m = Some (SysErr ''open directory'' fd) \<longleftrightarrow> fd < 0)
            \<and> (rv \<noteq> 0 \<and> msg_text w' m = Some (SysErr ''fsync directory'' r) \<longleftrightarrow> 0 \<le> fd \<and> r \<noteq> 0)
            \<and> (rv = 0 \<longleftrightarrow> 0 \<le> fd \<and> r = 0))"
  using assms
  by (auto simp: uvFsSyncDirThreadSafe_def os_defs obs_defs Let_def split: if_splits)

theorem uvFsSyncDirThreadSafe_outcomes_witness:
  "fst (uvFsSyncDirThreadSafe (env_of (sys_fail (Fsync 3) 5)) ''d'' NULL w0) = 1
   \<and> msg_text (snd (snd (uvFsSyncDirThreadSafe (env_of (sys_fail (Fsync 3) 5)) ''d'' NULL w0)))
        (fst (snd (uvFsSyncDirThreadSafe (env_of (sys_fail (Fsync 3) 5)) ''d'' NULL w0)))
      = Some (SysErr ''fsync directory'' 5)
   \<and> map fst (new_calls w0
        (snd (snd (uvFsSyncDirThreadSafe (env_of (sys_fail (Fsync 3) 5)) ''d'' NULL w0))))
      = [Open ''d'' [UV_FS_O_RDONLY, UV_FS_O_DIRECTORY] [], Fsync 3, Close 3]"
proof -
  let ?E = "env_of (sys_fail (Fsync 3) 5)"
  let ?X = "uvFsSyncDirThreadSafe ?E ''d'' NULL w0"
  have run: "?X = (fst ?X, fst (snd ?X), snd (snd ?X))"
    by simp
  have fd: "3 = result_of ?E w0 (Open ''d'' [UV_FS_O_RDONLY, UV_FS_O_DIRECTORY] [])"
    by (simp add: obs_defs ex_defs)
  have r: "5 = result_of ?E (after ?E w0 (Open ''d'' [UV_FS_O_RDONLY, UV_FS_O_DIRECTORY] [])) (Fsync 3)"
    by (simp add: obs_defs ex_defs)
  have e: "UV__ERROR ?E = 1"
    by (simp add: env_of_def)
  from uvFsSyncDirThreadSafe_outcomes [OF run fd r] e show ?thesis
    by simp
qed

subsection \<open>Releasing an absent message\<close>

text \<open>
  C10. \<open>HeapFree\<close> of the NULL pointer changes nothing: the allocator's \<open>free\<close> is not
  called. So closing a context that \<open>UvFsInit\<close> has just initialised, and setting a
  message on a context that holds none, make no call to the allocator; and whatever
  pointer \<open>HeapFree\<close>, \<open>UvFsClose\<close> or \<open>UvFsSetErrMsg\<close> is given, the allocator's \<open>free\<close>
  never receives NULL from them.
\<close>

theorem HeapFree_NULL_is_noop:
  "HeapFree NULL w = w
   \<and> UvFsClose (UvFsInit fs lp) w = w
   \<and> (errmsg fs = NULL \<longrightarrow> snd (UvFsSetErrMsg fs m w) = w)
   \<and> (NULL \<notin> set (free_calls w) \<longrightarrow>
        NULL \<notin> set (free_calls (HeapFree p w))
      \<and> NULL \<notin> set (free_calls (UvFsClose fs w))
      \<and> NULL \<notin> set (free_calls (snd (UvFsSetErrMsg fs m w))))"
  by (auto simp: HeapFree_def currentHeap_free_def UvFsClose_def UvFsInit_def UvFsSetErrMsg_def)

theorem HeapFree_NULL_is_noop_witness:
  "errmsg fs0 = NULL \<and> snd (UvFsSetErrMsg fs0 (Some 4) w0) = w0
   \<and> NULL \<notin> set (free_calls w_old)
   \<and> free_calls (UvFsClose fs_old w_old) = [Some 0]
   \<and> NULL \<notin> set (free_calls (UvFsClose fs_old w_old))"
proof -
  have a: "errmsg fs0 = NULL"
    by (simp add: fs0_def)
  have b: "NULL \<notin> set (free_calls w_old)"
    by (simp add: w_old_def)
  have c: "free_calls (UvFsClose fs_old w_old) = [Some 0]"
    by (simp add: UvFsClose_def HeapFree_def currentHeap_free_def ex_defs)
  from HeapFree_NULL_is_noop [of w0 fs0 7 "Some 4" NULL] a
    HeapFree_NULL_is_noop [of w_old fs_old 7 "Some 4" NULL] b c
  show ?thesis
    by simp
qed

subsection \<open>File removal\<close>

text \<open>
  C5. \<open>UvFsRemoveFile\<close> unlinks the joined path. When the unlink returns \<open>r \<noteq> 0\<close> (for a
  missing file, the code of ENOENT) it makes no other call and returns \<open>UV__ERROR\<close>, and
  the context holds the message "unlink" with the code \<open>r\<close>. When the unlink returns 0
  it runs the directory sync and returns 0 whatever the sync returned. So, with
  \<open>UV__ERROR \<noteq> 0\<close>, the removal fails exactly when the unlink fails. (The context's
  pointer is NULL or an address handed out before, so that the new message is not
  placed at it.)
\<close>

theorem UvFsRemoveFile_outcomes:
  assumes "UvFsRemoveFile E fs dir filename w = (rv, fs', w')"
    and "r = result_of E w (Unlink (UvOsJoin E dir filename))"
    and "allocated w (errmsg fs)"
  shows "(r \<noteq> 0 \<longrightarrow> rv = UV__ERROR E
            \<and> msg_text w' (errmsg fs') = Some (SysErr ''unlink'' r)
            \<and> map fst (new_calls w w') = [Unlink (UvOsJoin E dir filename)])
       \<and> (r = 0 \<longrightarrow> rv = 0
            \<and> (fs', w') = snd (uvFsSyncDir E fs dir (after E w (Unlink (UvOsJoin E dir filename)))))
       \<and> (UV__ERROR E \<noteq> 0 \<longrightarrow> (rv \<noteq> 0 \<longleftrightarrow> r \<noteq> 0))"
  using assms
  by (auto simp: UvFsRemoveFile_def fs_defs os_defs obs_defs Let_def
      split: if_splits prod.splits option.splits)

theorem UvFsRemoveFile_outcomes_witness:
  "fst (UvFsRemoveFile (env_of (sys_fail (Unlink ''d/missing'') (- 2))) fs0 ''d'' ''missing'' w0) = 1
   \<and> msg_text
        (snd (snd (UvFsRemoveFile (env_of (sys_fail (Unlink ''d/missing'') (- 2))) fs0 ''d'' ''missing'' w0)))
        (errmsg (fst (snd (UvFsRemoveFile (env_of (sys_fail (Unlink ''d/missing'') (- 2))) fs0 ''d'' ''missing'' w0))))
      = Some (SysErr ''unlink'' (- 2))
   \<and> fst (uvFsSyncDir (env_of (sys_fail (OpenDir ''d'') (- 5))) fs0 ''d''
        (after (env_of (sys_fail (OpenDir ''d'') (- 5))) w0 (Unlink ''d/f''))) = 1
   \<and> fst (UvFsRemoveFile (env_of (sys_fail (OpenDir ''d'') (- 5))) fs0 ''d'' ''f'' w0) = 0"
proof -
  let ?E = "env_of (sys_fail (Unlink ''d/missing'') (- 2))"
  let ?X = "UvFsRemoveFile ?E fs0 ''d'' ''missing'' w0"
  let ?F = "env_of (sys_fail (OpenDir ''d'') (- 5))"
  let ?Y = "UvFsRemoveFile ?F fs0 ''d'' ''f'' w0"
  have runX: "?X = (fst ?X, fst (snd ?X), snd (snd ?X))" and runY: "?Y = (fst ?Y, fst (snd ?Y), snd (snd ?Y))"
    by simp_all
  have rX: "- 2 = result_of ?E w0 (Unlink (UvOsJoin ?E ''d'' ''missing''))"
    by (simp add: obs_defs ex_defs)
  have rY: "0 = result_of ?F w0 (Unlink (UvOsJoin ?F ''d'' ''f''))"
    by (simp add: obs_defs ex_defs)
  have al: "allocated w0 (errmsg fs0)"
    by (simp add: allocated_def ex_defs)
  have sync: "fst (uvFsSyncDir ?F fs0 ''d'' (after ?F w0 (Unlink ''d/f''))) = 1"
    by (simp add: fs_defs os_defs obs_defs ex_defs)
  from UvFsRemoveFile_outcomes [OF runX rX al] UvFsRemoveFile_outcomes [OF runY rY al] sync
  show ?thesis
    by (simp add: env_of_def)
qed

subsection \<open>Truncate and rename\<close>

text \<open>
  C7. With size 0, \<open>UvFsTruncateAndRenameFile\<close> unlinks the source path and, when the
  unlink succeeded, goes straight to the directory sync, whose result is the result of
  the operation; when the unlink failed it stops with \<open>UV__ERROR\<close> and the message
  "unlink". The calls it makes are the unlink and then those of the directory sync
  (open of the directory, fsync, close): there is no open of a file, no truncate and
  no rename, and no call names the destination path (a path other than the source
  path and the directory).
\<close>

theorem UvFsTruncateAndRenameFile_size_zero:
  assumes "UvFsTruncateAndRenameFile E fs dir 0 filename1 filename2 w = (rv, fs', w')"
    and "path1 = UvOsJoin E dir filename1"
    and "path2 = UvOsJoin E dir filename2"
    and "r = result_of E w (Unlink path1)"
    and "fd = result_of E (after E w (Unlink path1)) (OpenDir dir)"
    and "allocated w (errmsg fs)"
  shows "map fst (new_calls w w') =
           (if r \<noteq> 0 then [Unlink path1]
            else if fd < 0 then [Unlink path1, OpenDir dir]
            else [Unlink path1, OpenDir dir, Fsync fd, Close fd])
       \<and> (r \<noteq> 0 \<longrightarrow> rv = UV__ERROR E \<and> msg_text w' (errmsg fs') = Some (SysErr ''unlink'' r))
       \<and> (r = 0 \<longrightarrow> (rv, fs', w') = uvFsSyncDir E fs dir (after E w (Unlink path1)))
       \<and> (path2 \<noteq> path1 \<and> path2 \<noteq> dir \<longrightarrow>
            (\<forall>c \<in> set (map fst (new_calls w w')). path2 \<notin> set (paths_of c)))"
  using assms
  by (auto simp: UvFsTruncateAndRenameFile_def TruncateAndRename_err_def TruncateAndRename_sync_def
      fs_defs os_defs obs_defs Let_def split: if_splits prod.splits option.splits)

theorem UvFsTruncateAndRenameFile_size_zero_witness:
  "fst (UvFsTruncateAndRenameFile (env_of sys_ok) fs0 ''d'' 0 ''seg-2'' ''seg-2-final'' w0) = 0
   \<and> map fst (new_calls w0
        (snd (snd (UvFsTruncateAndRenameFile (env_of sys_ok) fs0 ''d'' 0 ''seg-2'' ''seg-2-final'' w0))))
      = [Unlink ''d/seg-2'', OpenDir ''d'', Fsync 3, Close 3]
   \<and> ''d/seg-2-final'' \<notin> set (concat (map paths_of (map fst (new_calls w0
        (snd (snd (UvFsTruncateAndRenameFile (env_of sys_ok) fs0 ''d'' 0 ''seg-2'' ''seg-2-final'' w0)))))))"
proof -
  let ?E = "env_of sys_ok"
  let ?X = "UvFsTruncateAndRenameFile ?E fs0 ''d'' 0 ''seg-2'' ''seg-2-final'' w0"
  have run: "?X = (fst ?X, fst (snd ?X), snd (snd ?X))"
    by simp
  have p1: "''d/seg-2'' = UvOsJoin ?E ''d'' ''seg-2''"
    and p2: "''d/seg-2-final'' = UvOsJoin ?E ''d'' ''seg-2-final''"
    by (simp_all add: env_of_def)
  have r: "0 = result_of ?E w0 (Unlink ''d/seg-2'')"
    by (simp add: obs_defs ex_defs)
  have fd: "3 = result_of ?E (after ?E w0 (Unlink ''d/seg-2'')) (OpenDir ''d'')"
    by (simp add: obs_defs os_defs ex_defs)
  have al: "allocated w0 (errmsg fs0)"
    by (simp add: allocated_def ex_defs)
  have sync: "fst (uvFsSyncDir ?E fs0 ''d'' (after ?E w0 (Unlink ''d/seg-2''))) = 0"
    by (simp add: fs_defs os_defs obs_defs ex_defs)
  from UvFsTruncateAndRenameFile_size_zero [OF run p1 p2 r fd al] sync
  show ?thesis
    by (auto simp: prod_eq_iff)
qed

text \<open>
  C6. With a size other than 0 and the source file opened (descriptor \<open>fd\<close>), a failure
  of truncate, of the file's fsync or of rename makes \<open>UvFsTruncateAndRenameFile\<close>
  return \<open>UV__ERROR\<close> with the message of the failed call in the context. The
  descriptor is closed in each case: after the failed truncate or fsync, and before
  the rename is tried. Whatever the outcome, the operation calls close on the
  descriptor and never calls unlink.
\<close>

theorem UvFsTruncateAndRenameFile_failure_after_open:
  assumes "UvFsTruncateAndRenameFile E fs dir sz filename1 filename2 w = (rv, fs', w')"
    and "sz \<noteq> 0"
    and "path1 = UvOsJoin E dir filename1"
    and "path2 = UvOsJoin E dir filename2"
    and "fd = result_of E w (Open path1 [UV_FS_O_RDWR] [])"
    and "0 \<le> fd"
    and "t = result_of E (afters E w [Open path1 [UV_FS_O_RDWR] []]) (Truncate fd sz)"
    and "s = result_of E (afters E w [Open path1 [UV_FS_O_RDWR] [], Truncate fd sz]) (Fsync fd)"
    and "n = result_of E (afters E w [Open path1 [UV_FS_O_RDWR] [], Truncate fd sz, Fsync fd, Close fd])
               (Rename path1 path2)"
    and "allocated w (errmsg fs)"
  shows "(t \<noteq> 0 \<longrightarrow> rv = UV__ERROR E \<and> msg_text w' (errmsg fs') = Some (SysErr ''truncate'' t)
            \<and> map fst (new_calls w w') = [Open path1 [UV_FS_O_RDWR] [], Truncate fd sz, Close fd])
       \<and> (t = 0 \<and> s \<noteq> 0 \<longrightarrow> rv = UV__ERROR E \<and> msg_text w' (errmsg fs') = Some (SysErr ''fsync'' s)
            \<and> map fst (new_calls w w')
                = [Open path1 [UV_FS_O_RDWR] [], Truncate fd sz, Fsync fd, Close fd])
       \<and> (t = 0 \<and> s = 0 \<and> n \<noteq> 0 \<longrightarrow> rv = UV__ERROR E
            \<and> msg_text w' (errmsg fs') = Some (SysErr ''rename'' n)
            \<and> map fst (new_calls w w')
                = [Open path1 [UV_FS_O_RDWR] [], Truncate fd sz, Fsync fd, Close fd, Rename path1 path2])
       \<and> (\<forall>c \<in> set (map fst (new_calls w w')). \<forall>p. c \<noteq> Unlink p)
       \<and> Close fd \<in> set (map fst (new_calls w w'))"
  using assms
  by (auto simp: UvFsTruncateAndRenameFile_def TruncateAndRename_err_def TruncateAndRename_sync_def
      TruncateAndRename_err_after_open_def
      fs_defs os_defs obs_defs Let_def split: if_splits prod.splits option.splits)

theorem UvFsTruncateAndRenameFile_failure_after_open_witness:
  "fst (UvFsTruncateAndRenameFile (env_of (sys_fail (Rename ''d/seg-1'' ''d/seg-1-final'') (- 18)))
          fs0 ''d'' 100 ''seg-1'' ''seg-1-final'' w0) = 1
   \<and> map fst (new_calls w0 (snd (snd
        (UvFsTruncateAndRenameFile (env_of (sys_fail (Rename ''d/seg-1'' ''d/seg-1-final'') (- 18)))
          fs0 ''d'' 100 ''seg-1'' ''seg-1-final'' w0))))
      = [Open ''d/seg-1'' [UV_FS_O_RDWR] [], Truncate 3 100, Fsync 3, Close 3,
         Rename ''d/seg-1'' ''d/seg-1-final'']"
proof -
  let ?E = "env_of (sys_fail (Rename ''d/seg-1'' ''d/seg-1-final'') (- 18))"
  let ?X = "UvFsTruncateAndRenameFile ?E fs0 ''d'' 100 ''seg-1'' ''seg-1-final'' w0"
  have run: "?X = (fst ?X, fst (snd ?X), snd (snd ?X))"
    by simp
  have sz: "(100 :: size_t) \<noteq> 0"
    by simp
  have p1: "''d/seg-1'' = UvOsJoin ?E ''d'' ''seg-1''"
    and p2: "''d/seg-1-final'' = UvOsJoin ?E ''d'' ''seg-1-final''"
    by (simp_all add: env_of_def)
  have fd: "3 = result_of ?E w0 (Open ''d/seg-1'' [UV_FS_O_RDWR] [])"
    by (simp add: obs_defs ex_defs)
  have fd0: "(0::int) \<le> 3"
    by simp
  have t: "0 = result_of ?E (afters ?E w0 [Open ''d/seg-1'' [UV_FS_O_RDWR] []]) (Truncate 3 100)"
    by (simp add: obs_defs os_defs ex_defs)
  have s: "0 = result_of ?E (afters ?E w0 [Open ''d/seg-1'' [UV_FS_O_RDWR] [], Truncate 3 100]) (Fsync 3)"
    by (simp add: obs_defs os_defs ex_defs)
  have n: "- 18 = result_of ?E
      (afters ?E w0 [Open ''d/seg-1'' [UV_FS_O_RDWR] [], Truncate 3 100, Fsync 3, Close 3])
      (Rename ''d/seg-1'' ''d/seg-1-final'')"
    by (simp add: obs_defs os_defs ex_defs)
  have al: "allocated w0 (errmsg fs0)"
    by (simp add: allocated_def ex_defs)
  from UvFsTruncateAndRenameFile_failure_after_open [OF run sz p1 p2 fd fd0 t s n al]
  show ?thesis
    by (simp add: env_of_def)
qed

subsection \<open>Synchronous creation\<close>

text \<open>
  C1, as the code behaves. When the open and the preallocation succeed and the
  directory sync fails, \<open>UvFsCreateFile2\<close> goes to the same label as after a failed
  preallocation: it closes the descriptor, unlinks the path, stores the message of the
  directory sync in the context (releasing the previous one) and returns the nonzero
  status of the sync. It does return: the assertion at the label holds.
\<close>

theorem UvFsCreateFile2_dirsync_failure_cleans_up:
  assumes "path = UvOsJoin E dir filename"
    and "fd = result_of E w (OpenCreate path)"
    and "0 \<le> fd"
    and "result_of E (afters E w [OpenCreate path]) (Fallocate fd 0 sz) = 0"
    and "uvFsSyncDirThreadSafe E dir NULL (afters E w [OpenCreate path, Fallocate fd 0 sz]) = (rv, m, w3)"
    and "rv \<noteq> 0"
  shows "UvFsCreateFile2 E fs dir filename sz fd0 w =
           Inr (rv, fd, fs\<lparr>errmsg := m\<rparr>, HeapFree (errmsg fs) (afters E w3 [Close fd, Unlink path]))"
  using assms
  by (auto simp: UvFsCreateFile2_def CreateFile2_err_def CreateFile2_err_after_open_def
      UvFsSetErrMsg_def os_defs obs_defs Let_def split: if_splits prod.splits)

theorem UvFsCreateFile2_dirsync_failure_cleans_up_witness:
  "observe_create (UvFsCreateFile2 (env_of (sys_fail (Fsync 3) 5)) fs_old ''d'' ''f'' 4096 0 w_old)
     = Inr (1, 3, Some 1,
         [OpenCreate ''d/f'', Fallocate 3 0 4096, OpenDir ''d'', Fsync 3, Close 3, Close 3,
          Unlink ''d/f''])"
proof -
  let ?E = "env_of (sys_fail (Fsync 3) 5)"
  let ?S = "uvFsSyncDirThreadSafe ?E ''d'' NULL (afters ?E w_old [OpenCreate ''d/f'', Fallocate 3 0 4096])"
  have p: "''d/f'' = UvOsJoin ?E ''d'' ''f''"
    by (simp add: env_of_def)
  have fd: "3 = result_of ?E w_old (OpenCreate ''d/f'')"
    by (simp add: obs_defs ex_defs)
  have fd0: "(0::int) \<le> 3"
    by simp
  have fa: "result_of ?E (afters ?E w_old [OpenCreate ''d/f'']) (Fallocate 3 0 4096) = 0"
    by (simp add: obs_defs os_defs ex_defs)
  have sync: "?S = (fst ?S, fst (snd ?S), snd (snd ?S))"
    by simp
  have rv: "fst ?S \<noteq> 0"
    by (simp add: uvFsSyncDirThreadSafe_def obs_defs os_defs ex_defs)
  note eq = UvFsCreateFile2_dirsync_failure_cleans_up [OF p fd fd0 fa sync rv, of fs_old 0]
  show ?thesis
    unfolding eq
    by (simp add: observe_defs fs_defs obs_defs os_defs ex_defs Let_def)
qed

text \<open>
  C1 as the specification states it does not hold. Here the open returns descriptor 3, the preallocation
  succeeds and the open of the directory fails with code -5: \<open>UvFsCreateFile2\<close> returns
  \<open>UV__ERROR\<close> (1 in this environment), and its last two calls are the close of the
  descriptor and the unlink of the created path.
\<close>

theorem UvFsCreateFile2_dirsync_failure_unlinks:
  "result_of (env_of (sys_fail (OpenDir ''d'') (- 5))) w0 (OpenCreate ''d/f'') = 3
   \<and> result_of (env_of (sys_fail (OpenDir ''d'') (- 5)))
        (afters (env_of (sys_fail (OpenDir ''d'') (- 5))) w0 [OpenCreate ''d/f''])
        (Fallocate 3 0 4096) = 0
   \<and> observe_create (UvFsCreateFile2 (env_of (sys_fail (OpenDir ''d'') (- 5))) fs0 ''d'' ''f'' 4096 0 w0)
      = Inr (1, 3, Some 0,
          [OpenCreate ''d/f'', Fallocate 3 0 4096, OpenDir ''d'', Close 3, Unlink ''d/f''])"
  by (simp add: observe_defs create_defs fs_defs os_defs obs_defs ex_defs Let_def)

subsection \<open>The worker and the synchronous form\<close>

text \<open>
  C8. From the same world and for the directory, filename and size of the request, the
  worker \<open>uvFsCreateFileWorkCb\<close> and \<open>UvFsCreateFile2\<close> either both stop at the
  assertion or both return, with the same status and the same calls with the same
  results. On success they give the same descriptor, no message, and the same world,
  and \<open>UvFsCreateFile2\<close> leaves the context as it was. On failure the context and world
  of \<open>UvFsCreateFile2\<close> are those of \<open>UvFsSetErrMsg\<close> applied to the worker's message
  and world: the same message, stored in the context instead of the request. The
  worker changes the request in its message, status and descriptor fields only, frees
  nothing and invokes no callback. (On failure the descriptor is not a result: the
  worker leaves \<open>req->fd\<close> alone, while \<open>UvFsCreateFile2\<close> has stored the descriptor it
  then closed in \<open>*fd\<close>.)
\<close>

theorem uvFsCreateFileWorkCb_same_as_UvFsCreateFile2:
  "case (uvFsCreateFileWorkCb E req w,
         UvFsCreateFile2 E fs (req_dir req) (req_filename req) (req_size req) fd0 w) of
     (Inl a, Inl b) \<Rightarrow> True
   | (Inr (req', w1), Inr (rv, fd, fs', w2)) \<Rightarrow>
       rv = req_status req'
       \<and> trace w2 = trace w1
       \<and> (rv = 0 \<longrightarrow> fd = req_fd req' \<and> req_errmsg req' = NULL \<and> fs' = fs \<and> w2 = w1)
       \<and> (rv \<noteq> 0 \<longrightarrow> (fs', w2) = UvFsSetErrMsg fs (req_errmsg req') w1
                     \<and> req_fd req' = req_fd req)
       \<and> req' = req\<lparr>req_errmsg := req_errmsg req', req_status := rv, req_fd := req_fd req'\<rparr>
       \<and> free_calls w1 = free_calls w \<and> cb_calls w1 = cb_calls w
   | _ \<Rightarrow> False"
  by (simp add: create_defs UvFsSetErrMsg_def uvFsSyncDirThreadSafe_def os_defs Let_def
      HeapFree_frame split: prod.splits)

theorem uvFsCreateFileWorkCb_same_as_UvFsCreateFile2_witness:
  "observe_work (uvFsCreateFileWorkCb (env_of (sys_fail (Fallocate 3 0 4096) 28)) req_done w0)
     = Inr (1, Some 0, [OpenCreate ''d/f'', Fallocate 3 0 4096, Close 3, Unlink ''d/f''])
   \<and> (case UvFsCreateFile2 (env_of (sys_fail (Fallocate 3 0 4096) 28)) fs0 ''d'' ''f'' 4096 0 w0 of
         Inl a \<Rightarrow> False
       | Inr (rv, fd, fs', w2) \<Rightarrow>
           rv = 1 \<and> UvFsErrMsg fs' = Some 0
           \<and> map fst (trace w2) = [OpenCreate ''d/f'', Fallocate 3 0 4096, Close 3, Unlink ''d/f''])"
proof -
  let ?E = "env_of (sys_fail (Fallocate 3 0 4096) 28)"
  let ?W = "uvFsCreateFileWorkCb ?E req_done w0"
  let ?C = "UvFsCreateFile2 ?E fs0 ''d'' ''f'' 4096 0 w0"
  let ?calls = "[OpenCreate ''d/f'', Fallocate 3 0 4096, Close 3, Unlink ''d/f'']"
  have W: "observe_work ?W = Inr (1, Some 0, ?calls)"
    by (simp add: observe_defs create_defs os_defs ex_defs req_done_def Let_def)
  then obtain req' w1 where w: "?W = Inr (req', w1)"
    and st: "req_status req' = 1" "req_errmsg req' = Some 0" "map fst (trace w1) = ?calls"
    by (auto simp: observe_work_def split: sum.splits)
  have r: "req_dir req_done = ''d''" "req_filename req_done = ''f''" "req_size req_done = 4096"
    by (simp_all add: req_done_def)
  note T = uvFsCreateFileWorkCb_same_as_UvFsCreateFile2
      [where E = ?E and req = req_done and w = w0 and fs = fs0 and ?fd0.0 = 0, unfolded r w]
  have C: "case ?C of Inl a \<Rightarrow> False
       | Inr (rv, fd, fs', w2) \<Rightarrow>
           rv = 1 \<and> UvFsErrMsg fs' = Some 0 \<and> map fst (trace w2) = ?calls"
  proof (cases ?C)
    case (Inl a)
    with T show ?thesis
      by simp
  next
    case (Inr x)
    obtain rv fd fs' w2 where x: "x = (rv, fd, fs', w2)"
      by (cases x)
    from T st show ?thesis
      unfolding Inr x
      by (simp add: UvFsSetErrMsg_def UvFsErrMsg_def HeapFree_frame)
  qed
  from W C show ?thesis
    by simp
qed

subsection \<open>Finalizing a canceled request\<close>

text \<open>
  C4. When the request's canceled flag is set, \<open>uvFsCreateFileAfterWorkCb\<close> (called with
  libuv status 0) returns, and whatever the worker reported: the request's status is
  \<open>UV__CANCELED\<close>, the completion callback, if there is one, is invoked once with
  \<open>UV__CANCELED\<close>, and the context holds the request's new message, whose text is
  "canceled". If the worker reported success (status 0) the finalizer closes the
  request's descriptor and unlinks the joined path; if the worker reported a failure it
  makes no call and passes the worker's message to \<open>HeapFree\<close>. In both cases the
  context's previous message is released as well.
\<close>

theorem uvFsCreateFileAfterWorkCb_canceled:
  assumes "req_canceled req"
    and "allocated w (errmsg fs)"
  shows "\<exists>fs' req' w'.
           uvFsCreateFileAfterWorkCb E fs req 0 w = Inr (fs', req', w')
         \<and> req_status req' = UV__CANCELED E
         \<and> cb_calls w' = cb_calls w @ delivered (req_cb req) (UV__CANCELED E)
         \<and> UvFsErrMsg fs' = req_errmsg req'
         \<and> msg_text w' (UvFsErrMsg fs') = Some (Printf ''canceled'')
         \<and> (req_status req = 0 \<longrightarrow>
               map fst (new_calls w w')
                 = [Close (req_fd req), Unlink (UvOsJoin E (req_dir req) (req_filename req))]
             \<and> free_calls w' = free_calls w @ frees_of [errmsg fs])
         \<and> (req_status req \<noteq> 0 \<longrightarrow>
               new_calls w w' = []
             \<and> free_calls w' = free_calls w @ frees_of [req_errmsg req, errmsg fs])"
  using assms
  by (auto simp: after_defs frees_of_def delivered_def UvFsErrMsg_def fs_defs os_defs obs_defs Let_def
      split: option.splits)

theorem uvFsCreateFileAfterWorkCb_canceled_witness:
  "case uvFsCreateFileAfterWorkCb (env_of sys_ok) fs_old (UvFsCreateFileCancel req_done) 0 w_old of
     Inl a \<Rightarrow> False
   | Inr (fs', req', w') \<Rightarrow>
       req_status req' = 2 \<and> cb_calls w' = [(1, 2)]
       \<and> msg_text w' (UvFsErrMsg fs') = Some (Printf ''canceled'')
       \<and> map fst (new_calls w_old w') = [Close 3, Unlink ''d/f'']
       \<and> free_calls w' = [Some 0]"
proof -
  let ?E = "env_of sys_ok"
  let ?req = "UvFsCreateFileCancel req_done"
  have c: "req_canceled ?req"
    by (simp add: UvFsCreateFileCancel_def)
  have al: "allocated w_old (errmsg fs_old)"
    by (simp add: allocated_def ex_defs)
  have v: "req_status ?req = 0" "req_fd ?req = 3" "req_cb ?req = Some 1"
    "UvOsJoin ?E (req_dir ?req) (req_filename ?req) = ''d/f''" "UV__CANCELED ?E = 2"
    "cb_calls w_old = []" "free_calls w_old = []" "errmsg fs_old = Some 0"
    by (simp_all add: UvFsCreateFileCancel_def req_done_def ex_defs)
  from uvFsCreateFileAfterWorkCb_canceled [OF c al, of ?E]
  obtain fs' req' w' where
    "uvFsCreateFileAfterWorkCb ?E fs_old ?req 0 w_old = Inr (fs', req', w')"
    "req_status req' = 2" "cb_calls w' = [(1, 2)]"
    "msg_text w' (UvFsErrMsg fs') = Some (Printf ''canceled'')"
    "map fst (new_calls w_old w') = [Close 3, Unlink ''d/f'']"
    "free_calls w' = [Some 0]"
    unfolding v
    by (auto simp: delivered_def frees_of_def)
  then show ?thesis
    by simp
qed

subsection \<open>The stored message after a success\<close>

text \<open>
  C2 as the specification states it does not hold. A context holds the message at address 0; a request
  that was not canceled and whose worker succeeded is finalized: the callback gets
  status 0, the old message is passed to the allocator's \<open>free\<close>, and the accessor
  \<open>UvFsErrMsg\<close> returns NULL.
\<close>

theorem finalizer_success_clears_message:
  "UvFsErrMsg fs_old = Some 0
   \<and> msg_text w_old (UvFsErrMsg fs_old) = Some (SysErr ''open'' (- 17))
   \<and> \<not> req_canceled req_done \<and> req_status req_done = 0
   \<and> observe_after (uvFsCreateFileAfterWorkCb (env_of sys_ok) fs_old req_done 0 w_old)
        = Inr (NULL, 0, [(1, 0)], [Some 0], [])"
  by (simp add: after_defs observe_defs req_done_def fs_defs os_defs obs_defs ex_defs)

lemma uvFsSyncDir_success_frame:
  "UV__ERROR E \<noteq> 0 \<Longrightarrow>
   (case uvFsSyncDir E fs dir w of (rv, fs', w') \<Rightarrow>
      rv = 0 \<longrightarrow> fs' = fs \<and> heap w' = heap w \<and> free_calls w' = free_calls w)"
  by (simp add: uvFsSyncDir_def uvFsSyncDirThreadSafe_def os_defs Let_def split: prod.splits)

lemma UvFsCreateFile2_success_frame:
  "UV__ERROR E \<noteq> 0 \<Longrightarrow>
   (case UvFsCreateFile2 E fs dir filename sz fd0 w of
      Inl a \<Rightarrow> True
    | Inr (rv, fd1, fs1, w1) \<Rightarrow>
        rv = 0 \<longrightarrow> fs1 = fs \<and> heap w1 = heap w \<and> free_calls w1 = free_calls w)"
  by (simp add: create_defs UvFsSetErrMsg_def uvFsSyncDirThreadSafe_def os_defs Let_def
      split: prod.splits)

lemma UvFsTruncateAndRenameFile_success_frame:
  "UV__ERROR E \<noteq> 0 \<Longrightarrow>
   (case UvFsTruncateAndRenameFile E fs dir sz filename1 filename2 w of
      (rv, fs2, w2) \<Rightarrow>
        rv = 0 \<longrightarrow> fs2 = fs \<and> heap w2 = heap w \<and> free_calls w2 = free_calls w)"
  by (simp add: trunc_defs UvFsSetErrMsg_def uvFsSyncDir_def uvFsSyncDirThreadSafe_def os_defs
      Let_def split: prod.splits)

lemma UvFsCreateFile_success_frame:
  "UV__ERROR E \<noteq> 0 \<Longrightarrow>
   (case UvFsCreateFile E fs req dir filename sz cb w of
      (rv, fs3, req3, w3) \<Rightarrow>
        rv = 0 \<longrightarrow> fs3 = fs \<and> heap w3 = heap w \<and> free_calls w3 = free_calls w)"
  by (simp add: UvFsCreateFile_def UvFsSetErrMsg_def os_defs Let_def split: prod.splits)

lemma UvFsRemoveFile_success_frame:
  "UV__ERROR E \<noteq> 0 \<Longrightarrow>
   result_of E w (Unlink (UvOsJoin E dir filename)) = 0 \<Longrightarrow>
   fst (uvFsSyncDir E fs dir (after E w (Unlink (UvOsJoin E dir filename)))) = 0 \<Longrightarrow>
   (case UvFsRemoveFile E fs dir filename w of
      (rv, fs4, w4) \<Rightarrow>
        rv = 0 \<and> fs4 = fs \<and> heap w4 = heap w \<and> free_calls w4 = free_calls w)"
  using uvFsSyncDir_success_frame
    [where E = E and fs = fs and dir = dir and w = "after E w (Unlink (UvOsJoin E dir filename))"]
  by (simp add: UvFsRemoveFile_def os_defs obs_defs Let_def split: prod.splits)

lemma uvFsCreateFileAfterWorkCb_not_canceled:
  "\<not> req_canceled req \<Longrightarrow>
   uvFsCreateFileAfterWorkCb E fs req 0 w
     = Inr (fs\<lparr>errmsg := req_errmsg req\<rparr>, req,
            invoke_cb (req_cb req) (req_status req) (HeapFree (errmsg fs) w))"
  by (simp add: uvFsCreateFileAfterWorkCb_def UvFsSetErrMsg_def)

lemma uvFsCreateFileWorkCb_success_no_message:
  "(case uvFsCreateFileWorkCb E req w of
      Inl a \<Rightarrow> True | Inr (req6, w6) \<Rightarrow> req_status req6 = 0 \<longrightarrow> req_errmsg req6 = NULL)"
  by (simp add: create_defs uvFsSyncDirThreadSafe_def os_defs Let_def split: prod.splits)

lemma same_message:
  "fs' = fs \<Longrightarrow> heap w' = heap w \<Longrightarrow>
   UvFsErrMsg fs' = UvFsErrMsg fs \<and> msg_text w' (UvFsErrMsg fs') = msg_text w (UvFsErrMsg fs)"
  by (simp add: msg_text_def split: option.splits)

text \<open>
  C2, as the code behaves (with \<open>UV__ERROR \<noteq> 0\<close>). A synchronous creation, a
  truncate-and-rename and a submission that return 0 leave the context's message as it
  was, and so does a removal whose unlink and directory sync both succeed: the context
  is the same, its pointer names the same text, the live blocks are the same and
  nothing was passed to the allocator's \<open>free\<close>. The finalizer is different: for a
  request that was not canceled it always stores the request's message in the context,
  releasing the one held before (the heap is that of \<open>HeapFree\<close> on the old pointer),
  and delivers the worker's status; and a worker that succeeded left no message in the
  request, so after a success the context holds none.
\<close>

theorem success_keeps_message_except_finalizer:
  assumes "UV__ERROR E \<noteq> 0"
  shows "(UvFsCreateFile2 E fs dir filename sz fd0 w = Inr (0, fd1, fs1, w1) \<longrightarrow>
          fs1 = fs \<and> UvFsErrMsg fs1 = UvFsErrMsg fs
        \<and> msg_text w1 (UvFsErrMsg fs1) = msg_text w (UvFsErrMsg fs)
        \<and> heap w1 = heap w \<and> free_calls w1 = free_calls w)
   \<and> (UvFsTruncateAndRenameFile E fs dir sz filename filename2 w = (0, fs2, w2) \<longrightarrow>
          fs2 = fs \<and> UvFsErrMsg fs2 = UvFsErrMsg fs
        \<and> msg_text w2 (UvFsErrMsg fs2) = msg_text w (UvFsErrMsg fs)
        \<and> heap w2 = heap w \<and> free_calls w2 = free_calls w)
   \<and> (UvFsCreateFile E fs req dir filename sz cb w = (0, fs3, req3, w3) \<longrightarrow>
          fs3 = fs \<and> UvFsErrMsg fs3 = UvFsErrMsg fs
        \<and> msg_text w3 (UvFsErrMsg fs3) = msg_text w (UvFsErrMsg fs)
        \<and> heap w3 = heap w \<and> free_calls w3 = free_calls w)
   \<and> (result_of E w (Unlink (UvOsJoin E dir filename)) = 0
        \<and> fst (uvFsSyncDir E fs dir (after E w (Unlink (UvOsJoin E dir filename)))) = 0
        \<and> UvFsRemoveFile E fs dir filename w = (rv4, fs4, w4) \<longrightarrow>
          rv4 = 0 \<and> fs4 = fs \<and> UvFsErrMsg fs4 = UvFsErrMsg fs
        \<and> msg_text w4 (UvFsErrMsg fs4) = msg_text w (UvFsErrMsg fs)
        \<and> heap w4 = heap w \<and> free_calls w4 = free_calls w)
   \<and> (\<not> req_canceled req \<and> uvFsCreateFileAfterWorkCb E fs req 0 w = Inr (fs5, req5, w5)
        \<longrightarrow> UvFsErrMsg fs5 = req_errmsg req \<and> req5 = req
          \<and> free_calls w5 = free_calls w @ frees_of [errmsg fs]
          \<and> cb_calls w5 = cb_calls w @ delivered (req_cb req) (req_status req)
          \<and> heap w5 = heap (HeapFree (errmsg fs) w))
   \<and> (uvFsCreateFileWorkCb E req w = Inr (req6, w6) \<and> req_status req6 = 0
        \<longrightarrow> req_errmsg req6 = NULL)"
proof -
  have a: "UvFsCreateFile2 E fs dir filename sz fd0 w = Inr (0, fd1, fs1, w1) \<longrightarrow>
      fs1 = fs \<and> heap w1 = heap w \<and> free_calls w1 = free_calls w"
    using UvFsCreateFile2_success_frame
      [OF assms, where fs = fs and dir = dir and filename = filename and sz = sz
        and ?fd0.0 = fd0 and w = w]
    by auto
  have b: "UvFsTruncateAndRenameFile E fs dir sz filename filename2 w = (0, fs2, w2) \<longrightarrow>
      fs2 = fs \<and> heap w2 = heap w \<and> free_calls w2 = free_calls w"
    using UvFsTruncateAndRenameFile_success_frame
      [OF assms, where fs = fs and dir = dir and sz = sz and ?filename1.0 = filename
        and ?filename2.0 = filename2 and w = w]
    by auto
  have c: "UvFsCreateFile E fs req dir filename sz cb w = (0, fs3, req3, w3) \<longrightarrow>
      fs3 = fs \<and> heap w3 = heap w \<and> free_calls w3 = free_calls w"
    using UvFsCreateFile_success_frame
      [OF assms, where fs = fs and req = req and dir = dir and filename = filename
        and sz = sz and cb = cb and w = w]
    by auto
  have d: "result_of E w (Unlink (UvOsJoin E dir filename)) = 0
        \<and> fst (uvFsSyncDir E fs dir (after E w (Unlink (UvOsJoin E dir filename)))) = 0
        \<and> UvFsRemoveFile E fs dir filename w = (rv4, fs4, w4) \<longrightarrow>
      rv4 = 0 \<and> fs4 = fs \<and> heap w4 = heap w \<and> free_calls w4 = free_calls w"
    using UvFsRemoveFile_success_frame
      [OF assms, where w = w and dir = dir and filename = filename and fs = fs]
    by auto
  have e: "\<not> req_canceled req \<and> uvFsCreateFileAfterWorkCb E fs req 0 w = Inr (fs5, req5, w5)
        \<longrightarrow> UvFsErrMsg fs5 = req_errmsg req \<and> req5 = req
          \<and> free_calls w5 = free_calls w @ frees_of [errmsg fs]
          \<and> cb_calls w5 = cb_calls w @ delivered (req_cb req) (req_status req)
          \<and> heap w5 = heap (HeapFree (errmsg fs) w)"
    using uvFsCreateFileAfterWorkCb_not_canceled [where req = req and E = E and fs = fs and w = w]
    by (auto simp: UvFsErrMsg_def invoke_cb_def HeapFree_def currentHeap_free_def frees_of_def
        delivered_def split: option.splits)
  have f: "uvFsCreateFileWorkCb E req w = Inr (req6, w6) \<and> req_status req6 = 0
        \<longrightarrow> req_errmsg req6 = NULL"
    using uvFsCreateFileWorkCb_success_no_message [where E = E and req = req and w = w]
    by auto
  note m1 = same_message [of fs1 fs w1 w]
  note m2 = same_message [of fs2 fs w2 w]
  note m3 = same_message [of fs3 fs w3 w]
  note m4 = same_message [of fs4 fs w4 w]
  from a m1 have a': "UvFsCreateFile2 E fs dir filename sz fd0 w = Inr (0, fd1, fs1, w1) \<longrightarrow>
          fs1 = fs \<and> UvFsErrMsg fs1 = UvFsErrMsg fs
        \<and> msg_text w1 (UvFsErrMsg fs1) = msg_text w (UvFsErrMsg fs)
        \<and> heap w1 = heap w \<and> free_calls w1 = free_calls w"
    by blast
  from b m2 have b': "UvFsTruncateAndRenameFile E fs dir sz filename filename2 w = (0, fs2, w2) \<longrightarrow>
          fs2 = fs \<and> UvFsErrMsg fs2 = UvFsErrMsg fs
        \<and> msg_text w2 (UvFsErrMsg fs2) = msg_text w (UvFsErrMsg fs)
        \<and> heap w2 = heap w \<and> free_calls w2 = free_calls w"
    by blast
  from c m3 have c': "UvFsCreateFile E fs req dir filename sz cb w = (0, fs3, req3, w3) \<longrightarrow>
          fs3 = fs \<and> UvFsErrMsg fs3 = UvFsErrMsg fs
        \<and> msg_text w3 (UvFsErrMsg fs3) = msg_text w (UvFsErrMsg fs)
        \<and> heap w3 = heap w \<and> free_calls w3 = free_calls w"
    by blast
  from d m4 have d': "result_of E w (Unlink (UvOsJoin E dir filename)) = 0
        \<and> fst (uvFsSyncDir E fs dir (after E w (Unlink (UvOsJoin E dir filename)))) = 0
        \<and> UvFsRemoveFile E fs dir filename w = (rv4, fs4, w4) \<longrightarrow>
          rv4 = 0 \<and> fs4 = fs \<and> UvFsErrMsg fs4 = UvFsErrMsg fs
        \<and> msg_text w4 (UvFsErrMsg fs4) = msg_text w (UvFsErrMsg fs)
        \<and> heap w4 = heap w \<and> free_calls w4 = free_calls w"
    by blast
  from a' b' c' d' e f show ?thesis
    by blast
qed

theorem success_keeps_message_except_finalizer_witness:
  "UV__ERROR (env_of sys_ok) \<noteq> 0
   \<and> (case UvFsCreateFile2 (env_of sys_ok) fs_old ''d'' ''f'' 4096 0 w_old of
         Inl a \<Rightarrow> False
       | Inr (rv, fd, fs1, w1) \<Rightarrow>
           rv = 0 \<and> UvFsErrMsg fs1 = Some 0
           \<and> msg_text w1 (UvFsErrMsg fs1) = Some (SysErr ''open'' (- 17))
           \<and> free_calls w1 = [])
   \<and> (case uvFsCreateFileAfterWorkCb (env_of sys_ok) fs_old req_done 0 w_old of
         Inl a \<Rightarrow> False
       | Inr (fs5, req5, w5) \<Rightarrow> UvFsErrMsg fs5 = NULL \<and> free_calls w5 = [Some 0])"
proof -
  let ?E = "env_of sys_ok"
  let ?C = "UvFsCreateFile2 ?E fs_old ''d'' ''f'' 4096 0 w_old"
  let ?F = "uvFsCreateFileAfterWorkCb ?E fs_old req_done 0 w_old"
  have e: "UV__ERROR ?E \<noteq> 0"
    by (simp add: env_of_def)
  note T = success_keeps_message_except_finalizer [OF e]
  have "observe_create ?C
      = Inr (0, 3, Some 0, [OpenCreate ''d/f'', Fallocate 3 0 4096, OpenDir ''d'', Fsync 3, Close 3])"
    by (simp add: observe_defs create_defs fs_defs os_defs ex_defs Let_def)
  then obtain fs1 w1 where C: "?C = Inr (0, 3, fs1, w1)"
    by (auto simp: observe_create_def split: sum.splits)
  have old: "UvFsErrMsg fs_old = Some 0"
    "msg_text w_old (UvFsErrMsg fs_old) = Some (SysErr ''open'' (- 17))" "free_calls w_old = []"
    by (simp_all add: UvFsErrMsg_def msg_text_def ex_defs)
  have c1: "UvFsErrMsg fs1 = Some 0
      \<and> msg_text w1 (UvFsErrMsg fs1) = Some (SysErr ''open'' (- 17)) \<and> free_calls w1 = []"
    using T [where fs = fs_old and dir = "''d''" and filename = "''f''" and sz = 4096
        and ?fd0.0 = 0 and w = w_old and ?fd1.0 = 3 and ?fs1.0 = fs1 and ?w1.0 = w1,
        THEN conjunct1] C old
    by auto
  have "observe_after ?F = Inr (NULL, 0, [(1, 0)], [Some 0], [])"
    by (simp add: after_defs observe_defs req_done_def fs_defs os_defs ex_defs)
  then obtain fs5 req5 w5 where F: "?F = Inr (fs5, req5, w5)"
    by (auto simp: observe_after_def split: sum.splits)
  have n: "\<not> req_canceled req_done" "req_errmsg req_done = NULL"
    "free_calls w_old = []" "errmsg fs_old = Some 0"
    by (simp_all add: req_done_def ex_defs)
  have c2: "UvFsErrMsg fs5 = NULL \<and> free_calls w5 = [Some 0]"
    using T [where fs = fs_old and req = req_done and w = w_old and ?fs5.0 = fs5
        and ?req5.0 = req5 and ?w5.0 = w5,
        THEN conjunct2, THEN conjunct2, THEN conjunct2, THEN conjunct2, THEN conjunct1] F n
    by (simp add: frees_of_def)
  from e c1 c2 C F show ?thesis
    by auto
qed

subsection \<open>Releasing the previous message\<close>

text \<open>
  C3. The invariant is kept where a message is stored with \<open>UvFsSetErrMsg\<close>, and broken
  where \<open>uvFsSyncDir\<close> lets the helper write through \<open>&fs->errmsg\<close>. A context holds the
  message at address 0. A removal whose unlink fails stores its message through
  \<open>UvFsSetErrMsg\<close>: address 0 is passed to the allocator's \<open>free\<close> and is no longer
  live. A removal whose unlink succeeds and whose directory cannot be opened returns 0
  with the new message at address 1 in the context, and the old block at address 0 is
  still live and was never passed to \<open>free\<close>.
\<close>

theorem uvFsSyncDir_overwrites_without_release:
  "errmsg (fst (snd (UvFsRemoveFile (env_of (sys_fail (Unlink ''d/f'') (- 2))) fs_old ''d'' ''f'' w_old)))
       = Some 1
   \<and> heap (snd (snd (UvFsRemoveFile (env_of (sys_fail (Unlink ''d/f'') (- 2))) fs_old ''d'' ''f'' w_old))) 0
       = None
   \<and> free_calls (snd (snd (UvFsRemoveFile (env_of (sys_fail (Unlink ''d/f'') (- 2))) fs_old ''d'' ''f'' w_old)))
       = [Some 0]
   \<and> fst (UvFsRemoveFile (env_of (sys_fail (OpenDir ''d'') (- 5))) fs_old ''d'' ''f'' w_old) = 0
   \<and> errmsg (fst (snd (UvFsRemoveFile (env_of (sys_fail (OpenDir ''d'') (- 5))) fs_old ''d'' ''f'' w_old)))
       = Some 1
   \<and> heap (snd (snd (UvFsRemoveFile (env_of (sys_fail (OpenDir ''d'') (- 5))) fs_old ''d'' ''f'' w_old))) 0
       = Some (SysErr ''open'' (- 17))
   \<and> free_calls (snd (snd (UvFsRemoveFile (env_of (sys_fail (OpenDir ''d'') (- 5))) fs_old ''d'' ''f'' w_old)))
       = []"
  by (simp add: UvFsRemoveFile_def fs_defs os_defs ex_defs Let_def)

end
